theory Spec2Isabelle
  imports Complex_Main "HOL-Library.Word" "HOL-Library.Log_Nat"
begin

section \<open>Outcomes of a call\<close>

text \<open>
  The wrappers are C++ functions that return a value, throw, or index a vendor container.
  An exception is a value of \<open>error\<close>: \<open>RuntimeError m\<close> is a \<open>std::runtime_error\<close> with
  message \<open>m\<close> thrown by a wrapper itself, \<open>VendorException m\<close> is an exception raised inside
  a vendor library that leaves the wrapper untouched. \<open>OutOfRange\<close> is the outcome of
  indexing a snapshot outside \<open>0 .. NrMeasurements - 1\<close>: the language defines no result
  there, so it is a third outcome, neither a returned value nor a thrown error.
\<close>

datatype error = RuntimeError string | VendorException string

datatype 'a outcome = Returned 'a | Thrown error | OutOfRange

text \<open>
  A call into a vendor library (pmt, PowerSensor3), whose code is not part of the
  wrappers: it yields a value or raises an exception whose \<open>what()\<close> is the message.
\<close>

datatype 'a vendor = Ok 'a | Raised string

fun propagate :: "'a vendor \<Rightarrow> 'a outcome" where
  "propagate (Ok x) = Returned x"
| "propagate (Raised m) = Thrown (VendorException m)"

section \<open>Doubles\<close>

text \<open>
  A C++ \<open>double\<close> is an IEEE 754 binary64 value: a finite number, an infinity or NaN.
  A finite double is given by its real value. Every arithmetic operation on finite doubles
  yields the exact result rounded to the nearest double, ties to the even significand, and
  an infinity when the rounded result reaches \<open>2 ^ 1024\<close>. The two zeros are one value,
  \<open>Finite 0\<close>, which stands for the positive zero wherever the sign matters (as a divisor).

  \<open>quantum x\<close> is the exponent of the last place of the doubles around \<open>x\<close>: 53
  significant bits, and never below \<open>- 1074\<close>, the exponent of the smallest subnormal.
  \<open>bitlen k\<close> is the number of binary digits of \<open>k\<close>.
\<close>

datatype double = Finite real | PosInfinity | NegInfinity | NaN

definition quantum :: "real \<Rightarrow> int" where
  "quantum x = max (bitlen \<lfloor>\<bar>x\<bar> * 2 ^ 1074\<rfloor> - 53) 0 - 1074"

definition round_half_even :: "real \<Rightarrow> int" where
  "round_half_even y =
     (let f = \<lfloor>y\<rfloor> in
      if y - of_int f < 1 / 2 then f
      else if 1 / 2 < y - of_int f then f + 1
      else if even f then f else f + 1)"

definition round_double :: "real \<Rightarrow> double" where
  "round_double x =
     (let q = quantum x;
          r = of_int (round_half_even (x * 2 powi (- q))) * 2 powi q
      in if 2 ^ 1024 \<le> r then PosInfinity
         else if r \<le> - (2 ^ 1024) then NegInfinity
         else Finite r)"

fun is_finite :: "double \<Rightarrow> bool" where
  "is_finite (Finite x) = True"
| "is_finite _ = False"

fun double_add :: "double \<Rightarrow> double \<Rightarrow> double" where
  "double_add (Finite x) (Finite y) = round_double (x + y)"
| "double_add NaN _ = NaN"
| "double_add _ NaN = NaN"
| "double_add PosInfinity NegInfinity = NaN"
| "double_add NegInfinity PosInfinity = NaN"
| "double_add PosInfinity _ = PosInfinity"
| "double_add _ PosInfinity = PosInfinity"
| "double_add NegInfinity _ = NegInfinity"
| "double_add _ NegInfinity = NegInfinity"

fun double_sub :: "double \<Rightarrow> double \<Rightarrow> double" where
  "double_sub (Finite x) (Finite y) = round_double (x - y)"
| "double_sub NaN _ = NaN"
| "double_sub _ NaN = NaN"
| "double_sub PosInfinity PosInfinity = NaN"
| "double_sub NegInfinity NegInfinity = NaN"
| "double_sub PosInfinity _ = PosInfinity"
| "double_sub _ NegInfinity = PosInfinity"
| "double_sub NegInfinity _ = NegInfinity"
| "double_sub _ PosInfinity = NegInfinity"

fun double_div :: "double \<Rightarrow> double \<Rightarrow> double" where
  "double_div (Finite x) (Finite y) =
     (if y \<noteq> 0 then round_double (x / y)
      else if 0 < x then PosInfinity
      else if x < 0 then NegInfinity
      else NaN)"
| "double_div NaN _ = NaN"
| "double_div _ NaN = NaN"
| "double_div (Finite x) _ = Finite 0"
| "double_div PosInfinity (Finite y) = (if 0 \<le> y then PosInfinity else NegInfinity)"
| "double_div NegInfinity (Finite y) = (if 0 \<le> y then NegInfinity else PosInfinity)"
| "double_div _ _ = NaN"

section \<open>Snapshots\<close>

text \<open>
  Modelled from the spec: the class \<open>State\<close> of the vendor library pmt with its
  accessors \<open>NrMeasurements()\<close>, \<open>joules(i)\<close> and \<open>name(i)\<close> (section 3 of the
  specification: an ordered, index-addressable sequence of MeasurementPairs, each a name
  and a cumulative joule reading, with a timestamp; count = \<open>NrMeasurements\<close>). An
  accessor indexes the sequence; outside the sequence it has the outcome \<open>OutOfRange\<close>.
  A reading and a timestamp are held as real numbers and stand for the doubles nearest
  to them: \<open>joules(i)\<close> returns \<open>round_double\<close> of the number, which is the number
  itself whenever the number is a double, and an infinity when the number is beyond the
  largest double. Zero stands for the positive zero; a snapshot holds no NaN.
\<close>

record MeasurementPair =
  pair_name :: string
  pair_joules :: real

record State =
  measurements :: "MeasurementPair list"
  timestamp :: real

definition NrMeasurements :: "State \<Rightarrow> int" where
  "NrMeasurements st = int (length (measurements st))"

definition joules :: "State \<Rightarrow> int \<Rightarrow> double outcome" where
  "joules st i =
     (if 0 \<le> i \<and> i < NrMeasurements st
      then Returned (round_double (pair_joules (measurements st ! nat i)))
      else OutOfRange)"

definition name :: "State \<Rightarrow> int \<Rightarrow> string outcome" where
  "name st i =
     (if 0 \<le> i \<and> i < NrMeasurements st
      then Returned (pair_name (measurements st ! nat i))
      else OutOfRange)"

text \<open>
  Modelled from the spec: \<open>PMT::seconds\<close> of the vendor library (section 4.5:
  \<open>seconds(start, end) = end.timestamp - start.timestamp\<close>), a subtraction of doubles.
\<close>

definition seconds :: "State \<Rightarrow> State \<Rightarrow> double" where
  "seconds firstState secondState
   = double_sub (round_double (timestamp secondState)) (round_double (timestamp firstState))"

section \<open>\<open>std::to_string\<close> on an \<open>int\<close>\<close>

definition digit :: "nat \<Rightarrow> char" where
  "digit d = ''0123456789'' ! d"

fun nat_digits :: "nat \<Rightarrow> string" where
  "nat_digits n = (if n < 10 then [digit n] else nat_digits (n div 10) @ [digit (n mod 10)])"

declare nat_digits.simps [simp del]

definition to_string :: "int \<Rightarrow> string" where
  "to_string i = (if i < 0 then CHR ''-'' # nat_digits (nat (- i)) else nat_digits (nat i))"

section \<open>The pmt wrapper: \<open>sensors/pmt/src/wrapper/wrapper.cc\<close>\<close>

text \<open>
  \<open>SensorType\<close> is declared as \<open>enum class SensorType: uint8_t\<close>; its enumerators are in
  a generated header, so the tag of \<open>RAPL\<close> is a parameter of \<open>create\<close>, and so is
  the outcome of the vendor factory \<open>rapl::Rapl::Create()\<close>.
\<close>

type_synonym SensorType = "8 word"

definition create :: "SensorType \<Rightarrow> 'pmt vendor \<Rightarrow> SensorType \<Rightarrow> 'pmt outcome" where
  "create RAPL Rapl_Create sensor =
     (if sensor = RAPL then propagate Rapl_Create
      else Thrown (RuntimeError ''Unknown sensor type''))"

text \<open>
  \<open>PMT::Read\<close> is a virtual method of the vendor class, taken on a non-const reference:
  it is a parameter \<open>Read\<close> that returns the snapshot (or raises) and the device after
  the call.
\<close>

definition read :: "('dev \<Rightarrow> State vendor \<times> 'dev) \<Rightarrow> 'dev \<Rightarrow> State outcome \<times> 'dev" where
  "read Read device = (case Read device of (r, device') \<Rightarrow> (propagate r, device'))"

definition get_sensor_name ::
  "('dev \<Rightarrow> State vendor \<times> 'dev) \<Rightarrow> 'dev \<Rightarrow> int \<Rightarrow> string outcome \<times> 'dev" where
  "get_sensor_name Read device sensor_id =
     (if sensor_id < 0 then (Thrown (RuntimeError ''Invalid sensor id''), device)
      else (case Read device of
              (Ok st, device') \<Rightarrow> (name st sensor_id, device')
            | (Raised m, device') \<Rightarrow> (Thrown (VendorException m), device')))"

text \<open>
  \<open>Joules\<close>, lines 26 to 44. The statement of lines 27 to 29 builds a
  \<open>std::runtime_error\<close> as a temporary and has no \<open>throw\<close>: \<open>pairID_check\<close> is the
  object it builds, if any, and \<open>Joules\<close> binds it and goes on.
\<close>

definition pairID_check :: "State \<Rightarrow> int \<Rightarrow> error option" where
  "pairID_check firstState pairID =
     (if pairID > NrMeasurements firstState
      then Some (RuntimeError (''Invalid pairID'' @ to_string pairID
                   @ '', maximum value is '' @ to_string (NrMeasurements firstState)))
      else None)"

text \<open>
  The loop of lines 36 to 38, from index \<open>i\<close> with the running sum \<open>acc\<close>: each
  \<open>+=\<close> is one addition of doubles.
\<close>

function add_loop :: "State \<Rightarrow> int \<Rightarrow> double \<Rightarrow> double outcome" where
  "add_loop secondState i acc =
     (if i < NrMeasurements secondState
      then (case joules secondState i of
              Returned x \<Rightarrow> add_loop secondState (i + 1) (double_add acc x)
            | Thrown e \<Rightarrow> Thrown e
            | OutOfRange \<Rightarrow> OutOfRange)
      else Returned acc)"
  by pat_completeness auto
termination
  by (relation "measure (\<lambda>(st, i, acc). nat (NrMeasurements st - i))") auto

declare add_loop.simps [simp del]

text \<open>The loop of lines 40 to 42: each \<open>-=\<close> is one subtraction of doubles.\<close>

function sub_loop :: "State \<Rightarrow> int \<Rightarrow> double \<Rightarrow> double outcome" where
  "sub_loop firstState i acc =
     (if i < NrMeasurements firstState
      then (case joules firstState i of
              Returned x \<Rightarrow> sub_loop firstState (i + 1) (double_sub acc x)
            | Thrown e \<Rightarrow> Thrown e
            | OutOfRange \<Rightarrow> OutOfRange)
      else Returned acc)"
  by pat_completeness auto
termination
  by (relation "measure (\<lambda>(st, i, acc). nat (NrMeasurements st - i))") auto

declare sub_loop.simps [simp del]

definition Joules :: "State \<Rightarrow> State \<Rightarrow> int \<Rightarrow> double outcome" where
  "Joules firstState secondState pairID =
     (let discarded = pairID_check firstState pairID in
      if pairID \<ge> 0
      then (case (joules secondState pairID, joules firstState pairID) of
              (Returned x, Returned y) \<Rightarrow> Returned (double_sub x y)
            | (Thrown e, _) \<Rightarrow> Thrown e
            | (_, Thrown e) \<Rightarrow> Thrown e
            | _ \<Rightarrow> OutOfRange)
      else (case add_loop secondState 0 (Finite 0) of
              Returned j \<Rightarrow> sub_loop firstState 0 j
            | Thrown e \<Rightarrow> Thrown e
            | OutOfRange \<Rightarrow> OutOfRange))"

definition Watt :: "State \<Rightarrow> State \<Rightarrow> int \<Rightarrow> double outcome" where
  "Watt firstState secondState pairID =
     (case Joules firstState secondState pairID of
        Returned j \<Rightarrow> Returned (double_div j (seconds firstState secondState))
      | Thrown e \<Rightarrow> Thrown e
      | OutOfRange \<Rightarrow> OutOfRange)"

definition watts :: "State \<Rightarrow> State \<Rightarrow> int \<Rightarrow> double outcome" where
  "watts first second sensor_id = Watt first second sensor_id"

section \<open>The PowerSensor3 wrapper: \<open>sensors/powersensor3/src/wrapper/wrapper.cc\<close>\<close>

text \<open>
  The constructor of \<open>PowerSensor\<close>, \<open>PowerSensor::read\<close> and \<open>PowerSensor::getPairName\<close>
  are vendor code, hence parameters. The sensor is a const reference: no call changes it.
  \<open>create\<close> and \<open>read\<close> catch a vendor exception and throw a \<open>std::runtime_error\<close> with
  the same message; \<open>get_sensor_name\<close> has no handler.
\<close>

fun rethrow :: "'a vendor \<Rightarrow> 'a outcome" where
  "rethrow (Ok x) = Returned x"
| "rethrow (Raised m) = Thrown (RuntimeError m)"

definition powersensor3_rs_create :: "(string \<Rightarrow> 'ps vendor) \<Rightarrow> string \<Rightarrow> 'ps outcome" where
  "powersensor3_rs_create PowerSensor device = rethrow (PowerSensor device)"

definition powersensor3_rs_read :: "('ps \<Rightarrow> 'st vendor) \<Rightarrow> 'ps \<Rightarrow> 'st outcome" where
  "powersensor3_rs_read sensor_read sensor = rethrow (sensor_read sensor)"

definition powersensor3_rs_get_sensor_name ::
  "('ps \<Rightarrow> int \<Rightarrow> string vendor) \<Rightarrow> 'ps \<Rightarrow> int \<Rightarrow> string outcome" where
  "powersensor3_rs_get_sensor_name getPairName sensor sensor_id =
     (if sensor_id < 0 then Thrown (RuntimeError ''Invalid sensor id'')
      else propagate (getPairName sensor sensor_id))"

section \<open>Concrete snapshots and backends\<close>

text \<open>
  The two-channel scenario of the specification (section 8), the same end snapshot taken
  at the start's time, and a snapshot of one channel.
\<close>

definition scenario_start :: State where
  "scenario_start =
     \<lparr>measurements = [\<lparr>pair_name = ''pkg'', pair_joules = 100\<rparr>,
                      \<lparr>pair_name = ''dram'', pair_joules = 50\<rparr>],
      timestamp = 0\<rparr>"

definition scenario_end :: State where
  "scenario_end =
     \<lparr>measurements = [\<lparr>pair_name = ''pkg'', pair_joules = 150\<rparr>,
                      \<lparr>pair_name = ''dram'', pair_joules = 55\<rparr>],
      timestamp = 2\<rparr>"

definition same_instant_end :: State where
  "same_instant_end = scenario_end\<lparr>timestamp := 0\<rparr>"

definition one_channel :: State where
  "one_channel = \<lparr>measurements = [\<lparr>pair_name = ''pkg'', pair_joules = 10\<rparr>], timestamp = 1\<rparr>"

text \<open>
  Snapshots with readings of \<open>10 ^ 16\<close> joules, where neighbouring doubles are 2 apart,
  and one with two readings of \<open>2 ^ 1023\<close>, whose sum is beyond the largest double.
  All these numbers are doubles.
\<close>

definition large_start :: State where
  "large_start =
     \<lparr>measurements = [\<lparr>pair_name = ''pkg'', pair_joules = 10000000000000000\<rparr>,
                      \<lparr>pair_name = ''dram'', pair_joules = 1\<rparr>,
                      \<lparr>pair_name = ''gpu'', pair_joules = 1\<rparr>],
      timestamp = 0\<rparr>"

definition large_end :: State where
  "large_end =
     \<lparr>measurements = [\<lparr>pair_name = ''pkg'', pair_joules = 10000000000000000\<rparr>,
                      \<lparr>pair_name = ''dram'', pair_joules = 3\<rparr>,
                      \<lparr>pair_name = ''gpu'', pair_joules = 3\<rparr>],
      timestamp = 2\<rparr>"

definition large_short :: State where
  "large_short =
     \<lparr>measurements = [\<lparr>pair_name = ''pkg'', pair_joules = 10000000000000000\<rparr>,
                      \<lparr>pair_name = ''dram'', pair_joules = 1\<rparr>],
      timestamp = 0\<rparr>"



text \<open>A pmt device that hands out the snapshots of a list, one per \<open>Read\<close>.\<close>

fun replay_Read :: "State list \<Rightarrow> State vendor \<times> State list" where
  "replay_Read [] = (Raised ''no reading'', [])"
| "replay_Read (st # sts) = (Ok st, sts)"

text \<open>
  A PowerSensor3 sensor with configured pair names that may have lost its device:
  \<open>read\<close> raises then, \<open>getPairName\<close> answers from the configuration.
\<close>

record bench_sensor =
  pair_names :: "string list"
  connected :: bool

definition bench_read :: "bench_sensor \<Rightarrow> State vendor" where
  "bench_read sensor =
     (if connected sensor
      then Ok \<lparr>measurements = map (\<lambda>n. \<lparr>pair_name = n, pair_joules = 0\<rparr>) (pair_names sensor),
               timestamp = 0\<rparr>
      else Raised ''device disconnected'')"

definition bench_getPairName :: "bench_sensor \<Rightarrow> int \<Rightarrow> string vendor" where
  "bench_getPairName sensor i =
     (if 0 \<le> i \<and> i < int (length (pair_names sensor)) then Ok (pair_names sensor ! nat i)
      else Raised ''no such pair'')"

definition bench_open :: "string \<Rightarrow> bench_sensor vendor" where
  "bench_open device =
     (if device = ''/dev/ttyACM0'' then Ok \<lparr>pair_names = [''pair0''], connected = True\<rparr>
      else Raised ''cannot open device'')"

definition unplugged :: bench_sensor where
  "unplugged = \<lparr>pair_names = [''pair0''], connected = False\<rparr>"

section \<open>The specification's reading of two operations\<close>

text \<open>
  Section 4.3 in the specification's words, for a sensor behind a const reference:
  the channel name is found by taking a fresh read and indexing into it.
\<close>

definition read_then_index :: "('ps \<Rightarrow> State vendor) \<Rightarrow> 'ps \<Rightarrow> int \<Rightarrow> string outcome" where
  "read_then_index sensor_read sensor channelIndex =
     (case powersensor3_rs_read sensor_read sensor of
        Returned st \<Rightarrow> name st channelIndex
      | Thrown e \<Rightarrow> Thrown e
      | OutOfRange \<Rightarrow> OutOfRange)"

text \<open>
  The numbers and the readings of a snapshot in channel order, and what the two loops of
  \<open>Joules\<close> do to a running sum: add every reading in turn, subtract every reading in
  turn.
\<close>

definition amounts :: "State \<Rightarrow> real list" where
  "amounts st = map pair_joules (measurements st)"

definition readings :: "State \<Rightarrow> double list" where
  "readings st = map round_double (amounts st)"

definition add_all :: "double \<Rightarrow> double list \<Rightarrow> double" where
  "add_all acc xs = foldl double_add acc xs"

definition sub_all :: "double \<Rightarrow> double list \<Rightarrow> double" where
  "sub_all acc xs = foldl double_sub acc xs"

text \<open>
  Section 4.4 in the specification's words: the sum over all channels of the end
  snapshot minus the sum over all channels of the start snapshot, in doubles.
\<close>

definition sum_difference :: "State \<Rightarrow> State \<Rightarrow> double" where
  "sum_difference firstState secondState
   = double_sub (add_all (Finite 0) (readings secondState))
                (add_all (Finite 0) (readings firstState))"



section \<open>Rounding\<close>

lemma bitlen_floor_scaled:
  fixes a :: real
  assumes q: "0 \<le> q + int d"
    and lo: "2 ^ p \<le> a * 2 powi (- q)"
    and hi: "a * 2 powi (- q) < 2 ^ (p + 1)"
  shows "bitlen \<lfloor>a * 2 ^ d\<rfloor> = int p + 1 + (q + int d)"
proof -
  define n where "n = nat (q + int d)"
  have qn: "- q + int n = int d"
    using q by (simp add: n_def)
  have "(2::real) powi (- q + int n) = 2 powi (- q) * 2 powi (int n)"
    by (rule power_int_add) simp
  then have pw: "(2::real) ^ d = 2 powi (- q) * 2 ^ n"
    by (simp only: qn power_int_of_nat)
  have sc: "a * 2 ^ d = (a * 2 powi (- q)) * 2 ^ n"
    by (simp only: pw mult.assoc)
  have "(2::real) ^ p * 2 ^ n \<le> (a * 2 powi (- q)) * 2 ^ n"
    using lo by (rule mult_right_mono) simp
  then have lo': "(2::real) ^ (p + n) \<le> a * 2 ^ d"
    by (simp only: sc power_add)
  have "(a * 2 powi (- q)) * 2 ^ n < (2::real) ^ (p + 1) * 2 ^ n"
    using hi by (rule mult_strict_right_mono) simp
  then have hi': "a * 2 ^ d < (2::real) ^ (p + 1 + n)"
    by (simp only: sc power_add)
  let ?N = "\<lfloor>a * 2 ^ d\<rfloor>"
  have "of_int (2 ^ (p + n)) \<le> a * 2 ^ d"
    using lo' by simp
  then have Nlo: "2 ^ (p + n) \<le> ?N"
    by (simp only: le_floor_iff)
  have "a * 2 ^ d < of_int (2 ^ (p + 1 + n))"
    using hi' by simp
  then have Nhi: "?N < 2 ^ (p + 1 + n)"
    by (simp only: floor_less_iff)
  have up: "bitlen ?N \<le> int (p + 1 + n)"
    using Nhi by (simp only: bitlen_le_iff_power nat_int) simp
  have "nat (int (p + 1 + n)) - 1 = p + n"
    by simp
  then have "2 ^ (nat (int (p + 1 + n)) - 1) \<le> ?N"
    using Nlo by (simp only:)
  then have "int (p + 1 + n) \<le> bitlen ?N"
    by (simp only: bitlen_ge_iff_power) simp
  with up have "bitlen ?N = int (p + 1 + n)"
    by simp
  then show ?thesis
    using q by (simp add: n_def)
qed

lemma quantum_eqI:
  assumes q: "- 1074 \<le> q"
    and lo: "2 ^ 52 \<le> \<bar>x\<bar> * 2 powi (- q)"
    and hi: "\<bar>x\<bar> * 2 powi (- q) < 2 ^ 53"
  shows "quantum x = q"
proof -
  have q': "0 \<le> q + int 1074"
    using q by simp
  have hi': "\<bar>x\<bar> * 2 powi (- q) < 2 ^ (52 + 1)"
    using hi by simp
  have "bitlen \<lfloor>\<bar>x\<bar> * 2 ^ 1074\<rfloor> = int 52 + 1 + (q + int 1074)"
    using q' lo hi' by (rule bitlen_floor_scaled)
  then show ?thesis
    using q by (simp add: quantum_def)
qed

lemma round_double_at:
  assumes "- 1074 \<le> q"
    and "2 ^ 52 \<le> \<bar>x\<bar> * 2 powi (- q)"
    and "\<bar>x\<bar> * 2 powi (- q) < 2 ^ 53"
  shows "round_double x
         = (let r = of_int (round_half_even (x * 2 powi (- q))) * 2 powi q
            in if 2 ^ 1024 \<le> r then PosInfinity
               else if r \<le> - (2 ^ 1024) then NegInfinity
               else Finite r)"
  by (simp only: round_double_def quantum_eqI [OF assms] Let_def)

lemma quantum_lower: "- 1074 \<le> quantum x"
  by (simp add: quantum_def)

lemma bitlen_floor_upper:
  fixes a :: real
  assumes "a < 2 ^ w"
  shows "bitlen \<lfloor>a\<rfloor> \<le> int w"
proof -
  have "a < of_int (2 ^ w)"
    using assms by simp
  then have "\<lfloor>a\<rfloor> < 2 ^ w"
    by (simp only: floor_less_iff)
  then show ?thesis
    by (simp only: bitlen_le_iff_power nat_int) simp
qed

lemma quantum_upper:
  assumes "\<bar>x\<bar> < 2 ^ 53"
  shows "quantum x \<le> 0"
proof -
  have "\<bar>x\<bar> * 2 ^ 1074 < 2 ^ 53 * 2 ^ 1074"
    using assms by (rule mult_strict_right_mono) simp
  then have "\<bar>x\<bar> * 2 ^ 1074 < 2 ^ (53 + 1074)"
    by (simp only: power_add)
  then have "bitlen \<lfloor>\<bar>x\<bar> * 2 ^ 1074\<rfloor> \<le> int (53 + 1074)"
    by (rule bitlen_floor_upper)
  then show ?thesis
    by (simp add: quantum_def)
qed

lemma round_half_even_of_int: "round_half_even (of_int m) = m"
  by (simp add: round_half_even_def)

lemma scaled_whole:
  assumes "- 1074 \<le> q" and "q \<le> 0"
  shows "of_int (round_half_even (of_int k * 2 powi (- q))) * 2 powi q = (of_int k :: real)"
proof -
  define n where "n = nat (- q)"
  have q: "q = - int n"
    using assms by (simp add: n_def)
  have "of_int k * (2::real) powi (- q) = of_int (k * 2 ^ n)"
    by (simp add: q)
  then have "round_half_even (of_int k * 2 powi (- q)) = k * 2 ^ n"
    by (simp only: round_half_even_of_int)
  then show ?thesis
    by (simp add: q power_int_minus)
qed

lemma round_double_whole:
  assumes "x \<in> \<int>" and "\<bar>x\<bar> < 2 ^ 53"
  shows "round_double x = Finite x"
proof -
  from assms(1) obtain k where k: "x = of_int k"
    by (rule Ints_cases)
  have r: "of_int (round_half_even (x * 2 powi (- quantum x))) * 2 powi (quantum x) = x"
    unfolding k by (rule scaled_whole) (use assms(2) k in \<open>simp_all add: quantum_lower quantum_upper\<close>)
  have "\<bar>x\<bar> < 2 ^ 1024"
    using assms(2) by (rule less_trans) simp
  then have "\<not> 2 ^ 1024 \<le> x" and "\<not> x \<le> - (2 ^ 1024)"
    by (simp_all only: abs_less_iff not_le) simp_all
  then show ?thesis
    by (simp only: round_double_def Let_def r if_False)
qed

lemma round_double_0: "round_double 0 = Finite 0"
  by (rule round_double_whole) simp_all

lemma quantum_upper_grid:
  assumes g: "- 1074 \<le> g" and x: "\<bar>x\<bar> < 2 powi (53 + g)"
  shows "quantum x \<le> g"
proof -
  define n where "n = nat (g + 1074)"
  have gn: "53 + g + 1074 = int (53 + n)"
    using g by (simp add: n_def)
  have "(2::real) powi (53 + g + 1074) = 2 powi (53 + g) * 2 powi 1074"
    by (rule power_int_add) simp
  then have pw: "(2::real) powi (53 + g) * 2 ^ 1074 = 2 ^ (53 + n)"
    by (simp only: gn power_int_of_nat) simp
  have "\<bar>x\<bar> * 2 ^ 1074 < 2 powi (53 + g) * 2 ^ 1074"
    using x by (rule mult_strict_right_mono) simp
  then have "\<bar>x\<bar> * 2 ^ 1074 < 2 ^ (53 + n)"
    by (simp only: pw)
  then have "bitlen \<lfloor>\<bar>x\<bar> * 2 ^ 1074\<rfloor> \<le> int (53 + n)"
    by (rule bitlen_floor_upper)
  then show ?thesis
    using g by (simp add: quantum_def n_def)
qed

lemma scaled_grid:
  assumes q: "q \<le> g" and x: "x * 2 powi (- g) \<in> \<int>"
  shows "of_int (round_half_even (x * 2 powi (- q))) * 2 powi q = x"
proof -
  from x obtain k where k: "x * 2 powi (- g) = of_int k"
    by (rule Ints_cases)
  define m where "m = nat (g - q)"
  have gq: "g - q = int m"
    using q by (simp add: m_def)
  have "x * 2 powi (- g) * 2 powi g = x * (2 powi (- g) * 2 powi g)"
    by (simp only: mult.assoc)
  also have "2 powi (- g) * 2 powi g = (2::real) powi (- g + g)"
    by (rule power_int_add [symmetric]) simp
  finally have xk: "x = of_int k * 2 powi g"
    by (simp add: k)
  have "(2::real) powi (g + - q) = 2 powi g * 2 powi (- q)"
    by (rule power_int_add) simp
  then have "x * 2 powi (- q) = of_int k * 2 powi (g - q)"
    by (simp add: xk mult.assoc)
  also have "\<dots> = of_int (k * 2 ^ m)"
    by (simp add: gq)
  finally have "round_half_even (x * 2 powi (- q)) = k * 2 ^ m"
    by (simp only: round_half_even_of_int)
  moreover have "(2::real) powi (int m + q) = 2 powi (int m) * 2 powi q"
    by (rule power_int_add) simp
  then have "(2::real) ^ m * 2 powi q = 2 powi g"
    using gq by (simp add: algebra_simps)
  ultimately show ?thesis
    by (simp add: xk mult.assoc)
qed

lemma round_double_grid:
  assumes g: "- 1074 \<le> g" "g \<le> 971"
    and x: "x * 2 powi (- g) \<in> \<int>"
    and small: "\<bar>x\<bar> < 2 powi (53 + g)"
  shows "round_double x = Finite x"
proof -
  have "quantum x \<le> g"
    using g(1) small by (rule quantum_upper_grid)
  then have r: "of_int (round_half_even (x * 2 powi (- quantum x))) * 2 powi (quantum x) = x"
    using x by (rule scaled_grid)
  have "(2::real) powi (53 + g) \<le> 2 powi 1024"
    using g(2) by (intro power_int_increasing) simp_all
  then have "\<bar>x\<bar> < 2 ^ 1024"
    using small by simp
  then have "\<not> 2 ^ 1024 \<le> x" and "\<not> x \<le> - (2 ^ 1024)"
    by (simp_all only: abs_less_iff not_le) simp_all
  then show ?thesis
    by (simp only: round_double_def Let_def r if_False)
qed

section \<open>Running sums without rounding\<close>

lemma abs_le_sum_abs:
  fixes x :: real
  shows "x \<in> set xs \<Longrightarrow> \<bar>x\<bar> \<le> (\<Sum>y\<leftarrow>xs. \<bar>y\<bar>)"
proof (induction xs)
  case Nil
  then show ?case by simp
next
  case (Cons y ys)
  have "0 \<le> (\<Sum>z\<leftarrow>ys. \<bar>z\<bar>)"
    by (rule sum_list_nonneg) auto
  with Cons show ?case by auto
qed

lemma sum_abs_nonneg:
  fixes xs :: "real list"
  shows "0 \<le> (\<Sum>y\<leftarrow>xs. \<bar>y\<bar>)"
  by (rule sum_list_nonneg) auto

lemma sum_list_grid:
  fixes xs :: "real list"
  shows "\<forall>x\<in>set xs. x * c \<in> \<int> \<Longrightarrow> sum_list xs * c \<in> \<int>"
  by (induction xs) (simp_all add: distrib_right)

lemma add_all_Nil: "add_all acc [] = acc"
  by (simp add: add_all_def)

lemma add_all_Cons: "add_all acc (x # xs) = add_all (double_add acc x) xs"
  by (simp add: add_all_def)

lemma sub_all_Nil: "sub_all acc [] = acc"
  by (simp add: sub_all_def)

lemma sub_all_Cons: "sub_all acc (x # xs) = sub_all (double_sub acc x) xs"
  by (simp add: sub_all_def)

lemma add_all_exact:
  assumes g: "- 1074 \<le> g" "g \<le> 971"
    and "\<forall>x\<in>set xs. x * 2 powi (- g) \<in> \<int>" and "a * 2 powi (- g) \<in> \<int>"
    and "\<bar>a\<bar> + (\<Sum>x\<leftarrow>xs. \<bar>x\<bar>) < 2 powi (53 + g)"
  shows "add_all (Finite a) (map Finite xs) = Finite (a + sum_list xs)"
  using assms(3-)
proof (induction xs arbitrary: a)
  case Nil
  then show ?case by (simp add: add_all_Nil)
next
  case (Cons x xs)
  have x: "x * 2 powi (- g) \<in> \<int>" and xs: "\<forall>y\<in>set xs. y * 2 powi (- g) \<in> \<int>"
    using Cons.prems(1) by simp_all
  have rest: "0 \<le> (\<Sum>y\<leftarrow>xs. \<bar>y\<bar>)"
    by (rule sum_abs_nonneg)
  have bound: "\<bar>a + x\<bar> + (\<Sum>y\<leftarrow>xs. \<bar>y\<bar>) < 2 powi (53 + g)"
    using Cons.prems(3) by simp
  have grid: "(a + x) * 2 powi (- g) \<in> \<int>"
    using Cons.prems(2) x by (simp add: distrib_right)
  have step: "round_double (a + x) = Finite (a + x)"
    using g grid by (rule round_double_grid) (use bound rest in linarith)
  have "add_all (Finite a) (map Finite (x # xs)) = add_all (Finite (a + x)) (map Finite xs)"
    by (simp add: add_all_Cons step)
  also have "\<dots> = Finite (a + x + sum_list xs)"
    using xs grid bound by (rule Cons.IH)
  finally show ?case by (simp add: add.assoc)
qed

lemma sub_all_exact:
  assumes g: "- 1074 \<le> g" "g \<le> 971"
    and "\<forall>x\<in>set xs. x * 2 powi (- g) \<in> \<int>" and "a * 2 powi (- g) \<in> \<int>"
    and "\<bar>a\<bar> + (\<Sum>x\<leftarrow>xs. \<bar>x\<bar>) < 2 powi (53 + g)"
  shows "sub_all (Finite a) (map Finite xs) = Finite (a - sum_list xs)"
  using assms(3-)
proof (induction xs arbitrary: a)
  case Nil
  then show ?case by (simp add: sub_all_Nil)
next
  case (Cons x xs)
  have x: "x * 2 powi (- g) \<in> \<int>" and xs: "\<forall>y\<in>set xs. y * 2 powi (- g) \<in> \<int>"
    using Cons.prems(1) by simp_all
  have rest: "0 \<le> (\<Sum>y\<leftarrow>xs. \<bar>y\<bar>)"
    by (rule sum_abs_nonneg)
  have bound: "\<bar>a - x\<bar> + (\<Sum>y\<leftarrow>xs. \<bar>y\<bar>) < 2 powi (53 + g)"
    using Cons.prems(3) by simp
  have grid: "(a - x) * 2 powi (- g) \<in> \<int>"
    using Cons.prems(2) x by (simp add: left_diff_distrib)
  have step: "round_double (a - x) = Finite (a - x)"
    using g grid by (rule round_double_grid) (use bound rest in linarith)
  have "sub_all (Finite a) (map Finite (x # xs)) = sub_all (Finite (a - x)) (map Finite xs)"
    by (simp add: sub_all_Cons step)
  also have "\<dots> = Finite (a - x - sum_list xs)"
    using xs grid bound by (rule Cons.IH)
  finally show ?case by (simp add: algebra_simps)
qed

section \<open>The accessors and the two loops\<close>

lemma joules_in_range:
  "0 \<le> i \<Longrightarrow> i < NrMeasurements st \<Longrightarrow>
   joules st i = Returned (round_double (pair_joules (measurements st ! nat i)))"
  by (simp add: joules_def)

lemma joules_out_of_range:
  "i < 0 \<or> NrMeasurements st \<le> i \<Longrightarrow> joules st i = OutOfRange"
  by (auto simp: joules_def)

lemma drop_readings_step:
  assumes "0 \<le> i" "i < NrMeasurements st"
  shows "drop (nat i) (readings st)
         = round_double (pair_joules (measurements st ! nat i)) # drop (nat (i + 1)) (readings st)"
proof -
  have lt: "nat i < length (readings st)"
    using assms by (simp add: NrMeasurements_def readings_def amounts_def)
  have "drop (nat i) (readings st) = readings st ! nat i # drop (Suc (nat i)) (readings st)"
    using lt by (simp add: Cons_nth_drop_Suc)
  moreover have "nat (i + 1) = Suc (nat i)"
    using assms by simp
  moreover have "readings st ! nat i = round_double (pair_joules (measurements st ! nat i))"
    using lt by (simp add: readings_def amounts_def)
  ultimately show ?thesis by simp
qed

lemma add_loop_fold:
  "0 \<le> i \<Longrightarrow> add_loop st i acc = Returned (add_all acc (drop (nat i) (readings st)))"
proof (induction st i acc rule: add_loop.induct)
  case (1 st i acc)
  show ?case
  proof (cases "i < NrMeasurements st")
    case True
    have rd: "joules st i = Returned (round_double (pair_joules (measurements st ! nat i)))"
      using "1.prems" True by (rule joules_in_range)
    have "add_loop st i acc
          = add_loop st (i + 1) (double_add acc (round_double (pair_joules (measurements st ! nat i))))"
      using True rd by (subst add_loop.simps) simp
    also have "\<dots> = Returned (add_all (double_add acc (round_double (pair_joules (measurements st ! nat i))))
                         (drop (nat (i + 1)) (readings st)))"
      using "1.IH" [OF True rd] "1.prems" by simp
    finally show ?thesis
      by (simp add: drop_readings_step [OF "1.prems" True] add_all_Cons)
  next
    case False
    then have "drop (nat i) (readings st) = []"
      by (simp add: NrMeasurements_def readings_def amounts_def)
    then show ?thesis
      using False by (subst add_loop.simps) (simp add: add_all_Nil)
  qed
qed

lemma sub_loop_fold:
  "0 \<le> i \<Longrightarrow> sub_loop st i acc = Returned (sub_all acc (drop (nat i) (readings st)))"
proof (induction st i acc rule: sub_loop.induct)
  case (1 st i acc)
  show ?case
  proof (cases "i < NrMeasurements st")
    case True
    have rd: "joules st i = Returned (round_double (pair_joules (measurements st ! nat i)))"
      using "1.prems" True by (rule joules_in_range)
    have "sub_loop st i acc
          = sub_loop st (i + 1) (double_sub acc (round_double (pair_joules (measurements st ! nat i))))"
      using True rd by (subst sub_loop.simps) simp
    also have "\<dots> = Returned (sub_all (double_sub acc (round_double (pair_joules (measurements st ! nat i))))
                         (drop (nat (i + 1)) (readings st)))"
      using "1.IH" [OF True rd] "1.prems" by simp
    finally show ?thesis
      by (simp add: drop_readings_step [OF "1.prems" True] sub_all_Cons)
  next
    case False
    then have "drop (nat i) (readings st) = []"
      by (simp add: NrMeasurements_def readings_def amounts_def)
    then show ?thesis
      using False by (subst sub_loop.simps) (simp add: sub_all_Nil)
  qed
qed

lemma Joules_negative:
  "pairID < 0 \<Longrightarrow>
   Joules firstState secondState pairID
   = Returned (sub_all (add_all (Finite 0) (readings secondState)) (readings firstState))"
  by (simp add: Joules_def Let_def add_loop_fold sub_loop_fold)

lemma running_total_exact:
  assumes g: "- 1074 \<le> g" "g \<le> 971"
    and "\<forall>x\<in>set ys. x * 2 powi (- g) \<in> \<int>" and "\<forall>x\<in>set xs. x * 2 powi (- g) \<in> \<int>"
    and "(\<Sum>x\<leftarrow>ys. \<bar>x\<bar>) + (\<Sum>x\<leftarrow>xs. \<bar>x\<bar>) < 2 powi (53 + g)"
  shows "sub_all (add_all (Finite 0) (map Finite ys)) (map Finite xs)
         = Finite (sum_list ys - sum_list xs)"
proof -
  have x0: "0 \<le> (\<Sum>x\<leftarrow>xs. \<bar>x\<bar>)"
    by (rule sum_abs_nonneg)
  have "add_all (Finite 0) (map Finite ys) = Finite (0 + sum_list ys)"
    using g assms(3) by (rule add_all_exact) (use assms(5) x0 in simp_all)
  then have a: "add_all (Finite 0) (map Finite ys) = Finite (sum_list ys)"
    by simp
  have "\<bar>sum_list ys\<bar> \<le> (\<Sum>x\<leftarrow>ys. \<bar>x\<bar>)"
    by (rule sum_list_abs)
  then have "\<bar>sum_list ys\<bar> + (\<Sum>x\<leftarrow>xs. \<bar>x\<bar>) < 2 powi (53 + g)"
    using assms(5) by linarith
  with g assms(4) sum_list_grid [OF assms(3)]
  have "sub_all (Finite (sum_list ys)) (map Finite xs) = Finite (sum_list ys - sum_list xs)"
    by (rule sub_all_exact)
  then show ?thesis
    by (simp only: a)
qed

lemma readings_exact:
  assumes g: "- 1074 \<le> g" "g \<le> 971"
    and "\<forall>x\<in>set (amounts st). x * 2 powi (- g) \<in> \<int>"
    and "(\<Sum>x\<leftarrow>amounts st. \<bar>x\<bar>) < 2 powi (53 + g)"
  shows "readings st = map Finite (amounts st)"
proof -
  have "round_double x = Finite x" if "x \<in> set (amounts st)" for x
  proof (rule round_double_grid [OF g])
    show "x * 2 powi (- g) \<in> \<int>"
      using assms(3) that by blast
    have "\<bar>x\<bar> \<le> (\<Sum>y\<leftarrow>amounts st. \<bar>y\<bar>)"
      using that by (rule abs_le_sum_abs)
    then show "\<bar>x\<bar> < 2 powi (53 + g)"
      using assms(4) by linarith
  qed
  then show ?thesis
    by (simp add: readings_def)
qed

lemma Joules_negative_exact:
  assumes "pairID < 0" and g: "- 1074 \<le> g" "g \<le> 971"
    and "\<forall>x\<in>set (amounts secondState). x * 2 powi (- g) \<in> \<int>"
    and "\<forall>x\<in>set (amounts firstState). x * 2 powi (- g) \<in> \<int>"
    and "(\<Sum>x\<leftarrow>amounts secondState. \<bar>x\<bar>) + (\<Sum>x\<leftarrow>amounts firstState. \<bar>x\<bar>) < 2 powi (53 + g)"
  shows "Joules firstState secondState pairID
         = Returned (Finite (sum_list (amounts secondState) - sum_list (amounts firstState)))"
proof -
  have f0: "0 \<le> (\<Sum>x\<leftarrow>amounts firstState. \<bar>x\<bar>)" and s0: "0 \<le> (\<Sum>x\<leftarrow>amounts secondState. \<bar>x\<bar>)"
    by (rule sum_abs_nonneg)+
  have rs: "readings secondState = map Finite (amounts secondState)"
    using g assms(4) by (rule readings_exact) (use assms(6) f0 in linarith)
  have rf: "readings firstState = map Finite (amounts firstState)"
    using g assms(5) by (rule readings_exact) (use assms(6) s0 in linarith)
  have "sub_all (add_all (Finite 0) (map Finite (amounts secondState))) (map Finite (amounts firstState))
        = Finite (sum_list (amounts secondState) - sum_list (amounts firstState))"
    using g assms(4-6) by (rule running_total_exact)
  then show ?thesis
    using assms(1) by (simp add: Joules_negative rs rf)
qed

lemma Joules_nonnegative:
  "0 \<le> pairID \<Longrightarrow>
   Joules firstState secondState pairID
   = (case (joules secondState pairID, joules firstState pairID) of
        (Returned x, Returned y) \<Rightarrow> Returned (double_sub x y)
      | (Thrown e, _) \<Rightarrow> Thrown e
      | (_, Thrown e) \<Rightarrow> Thrown e
      | _ \<Rightarrow> OutOfRange)"
  by (simp add: Joules_def Let_def)

lemma Joules_in_range:
  "0 \<le> pairID \<Longrightarrow> pairID < NrMeasurements firstState \<Longrightarrow> pairID < NrMeasurements secondState \<Longrightarrow>
   Joules firstState secondState pairID
   = Returned (double_sub (round_double (pair_joules (measurements secondState ! nat pairID)))
                          (round_double (pair_joules (measurements firstState ! nat pairID))))"
  by (simp add: Joules_nonnegative joules_in_range)

lemma Joules_never_throws: "Joules firstState secondState pairID \<noteq> Thrown e"
proof (cases "pairID < 0")
  case True
  then show ?thesis by (simp add: Joules_negative)
next
  case False
  then show ?thesis
    by (auto simp: Joules_nonnegative joules_def)
qed

lemma Joules_out_of_range:
  "NrMeasurements firstState \<le> pairID \<Longrightarrow> Joules firstState secondState pairID = OutOfRange"
proof -
  assume a: "NrMeasurements firstState \<le> pairID"
  have nn: "0 \<le> pairID"
    using a by (simp add: NrMeasurements_def)
  have "joules firstState pairID = OutOfRange"
    using a by (simp add: joules_out_of_range)
  then show ?thesis
    using nn by (simp add: Joules_nonnegative joules_def)
qed

lemma to_string_2: "to_string 2 = ''2''"
  by (simp add: to_string_def nat_digits.simps [of 2] digit_def)

lemma to_string_3: "to_string 3 = ''3''"
  by (simp add: to_string_def nat_digits.simps [of 3] digit_def)

section \<open>Rounding near \<open>10 ^ 16\<close> and \<open>2 ^ 1024\<close>\<close>

lemma round_1e16: "round_double 10000000000000000 = Finite 10000000000000000"
  using round_double_at [of 1 10000000000000000] by (simp add: round_half_even_def)

lemma round_1e16_plus_1: "round_double 10000000000000001 = Finite 10000000000000000"
  using round_double_at [of 1 10000000000000001] by (simp add: round_half_even_def)

lemma round_1e16_plus_3: "round_double 10000000000000003 = Finite 10000000000000004"
  using round_double_at [of 1 10000000000000003] by (simp add: round_half_even_def)

lemma round_1e16_plus_7: "round_double 10000000000000007 = Finite 10000000000000008"
  using round_double_at [of 1 10000000000000007] by (simp add: round_half_even_def)



lemma round_27_5: "round_double (55 / 2) = Finite (55 / 2)"
  using round_double_at [of "- 48" "55 / 2"] by (simp add: round_half_even_def)

section \<open>Sums of single-channel results\<close>







section \<open>No NaN from finite readings\<close>

lemma round_double_not_NaN: "round_double x \<noteq> NaN"
  by (simp add: round_double_def Let_def)

lemma add_all_not_NaN: "acc \<noteq> NaN \<Longrightarrow> list_all is_finite xs \<Longrightarrow> add_all acc xs \<noteq> NaN"
proof (induction xs arbitrary: acc)
  case Nil
  then show ?case by (simp add: add_all_Nil)
next
  case (Cons x xs)
  from Cons.prems(2) obtain r where x: "x = Finite r"
    by (cases x) simp_all
  have "double_add acc x \<noteq> NaN"
    using Cons.prems(1) by (cases acc) (simp_all add: x round_double_not_NaN)
  then show ?case
    using Cons.prems(2) by (simp add: add_all_Cons Cons.IH)
qed

lemma sub_all_not_NaN: "acc \<noteq> NaN \<Longrightarrow> list_all is_finite xs \<Longrightarrow> sub_all acc xs \<noteq> NaN"
proof (induction xs arbitrary: acc)
  case Nil
  then show ?case by (simp add: sub_all_Nil)
next
  case (Cons x xs)
  from Cons.prems(2) obtain r where x: "x = Finite r"
    by (cases x) simp_all
  have "double_sub acc x \<noteq> NaN"
    using Cons.prems(1) by (cases acc) (simp_all add: x round_double_not_NaN)
  then show ?case
    using Cons.prems(2) by (simp add: sub_all_Cons Cons.IH)
qed

section \<open>Energy between two snapshots\<close>

text \<open>
  Claim C1. When the two snapshots have the same number of channels and \<open>k\<close> is the index
  of one of them, \<open>Joules\<close> returns the reading of channel \<open>k\<close> in the second snapshot
  minus the reading of channel \<open>k\<close> in the first, one subtraction of doubles. The
  difference is returned as it is, also when it is negative: nothing is clamped.
\<close>

theorem Joules_single_channel:
  assumes "NrMeasurements firstState = NrMeasurements secondState"
    and "0 \<le> k" and "k < NrMeasurements secondState"
  shows "Joules firstState secondState k
         = Returned (double_sub (round_double (pair_joules (measurements secondState ! nat k)))
                                (round_double (pair_joules (measurements firstState ! nat k))))"
  using assms by (simp add: Joules_in_range)

text \<open>With the snapshots of the scenario in the wrong order the result is \<open>- 50\<close>.\<close>

theorem Joules_single_channel_witness:
  "NrMeasurements scenario_end = NrMeasurements scenario_start \<and> (0::int) \<le> 0
   \<and> 0 < NrMeasurements scenario_start
   \<and> Joules scenario_end scenario_start 0 = Returned (Finite (- 50))"
  using Joules_single_channel [of scenario_end scenario_start 0]
  by (simp add: scenario_start_def scenario_end_def NrMeasurements_def round_double_whole)

text \<open>
  Claim C2, as the code has it. Every negative selector, not only \<open>- 1\<close>, selects the
  aggregate: from 0 the readings of the second snapshot are added one by one, then the
  readings of the first are subtracted one by one, and that running total is returned.
  Every step is rounded. When the readings are multiples of one power of two \<open>2 ^ g\<close>
  and their absolute values sum to less than \<open>2 ^ (53 + g)\<close> (whole numbers below
  \<open>2 ^ 53\<close> for \<open>g = 0\<close>) no step rounds, and the total is the sum of the second
  snapshot's readings minus the sum of the first's.
\<close>

theorem Joules_aggregate_mode:
  assumes "pairID < 0"
  shows "Joules firstState secondState pairID
         = Returned (sub_all (add_all (Finite 0) (readings secondState)) (readings firstState))
         \<and> (- 1074 \<le> g \<and> g \<le> 971
              \<and> list_all (\<lambda>x. x * 2 powi (- g) \<in> \<int>) (amounts secondState)
              \<and> list_all (\<lambda>x. x * 2 powi (- g) \<in> \<int>) (amounts firstState)
              \<and> (\<Sum>x\<leftarrow>amounts secondState. \<bar>x\<bar>) + (\<Sum>x\<leftarrow>amounts firstState. \<bar>x\<bar>)
                  < 2 powi (53 + g)
            \<longrightarrow> Joules firstState secondState pairID
                = Returned (Finite (sum_list (amounts secondState)
                                    - sum_list (amounts firstState))))"
proof (intro conjI impI)
  show "Joules firstState secondState pairID
        = Returned (sub_all (add_all (Finite 0) (readings secondState)) (readings firstState))"
    using assms by (rule Joules_negative)
next
  assume "- 1074 \<le> g \<and> g \<le> 971
          \<and> list_all (\<lambda>x. x * 2 powi (- g) \<in> \<int>) (amounts secondState)
          \<and> list_all (\<lambda>x. x * 2 powi (- g) \<in> \<int>) (amounts firstState)
          \<and> (\<Sum>x\<leftarrow>amounts secondState. \<bar>x\<bar>) + (\<Sum>x\<leftarrow>amounts firstState. \<bar>x\<bar>)
              < 2 powi (53 + g)"
  with assms show "Joules firstState secondState pairID
        = Returned (Finite (sum_list (amounts secondState) - sum_list (amounts firstState)))"
    by (intro Joules_negative_exact [of _ g]) (simp_all add: list_all_iff)
qed

theorem Joules_aggregate_mode_witness:
  "(- 5 :: int) < 0 \<and> (- 1074 :: int) \<le> 0 \<and> (0 :: int) \<le> 971
   \<and> list_all (\<lambda>x. x * 2 powi (- 0) \<in> \<int>) (amounts scenario_end)
   \<and> list_all (\<lambda>x. x * 2 powi (- 0) \<in> \<int>) (amounts scenario_start)
   \<and> (\<Sum>x\<leftarrow>amounts scenario_end. \<bar>x\<bar>) + (\<Sum>x\<leftarrow>amounts scenario_start. \<bar>x\<bar>) < 2 powi (53 + 0)
   \<and> Joules scenario_start scenario_end (- 5) = Returned (Finite 55)"
proof -
  have neg: "(- 5 :: int) < 0" and g: "(- 1074 :: int) \<le> 0" "(0 :: int) \<le> 971"
    by simp_all
  have w: "list_all (\<lambda>x. x * 2 powi (- 0) \<in> \<int>) (amounts scenario_end)"
    "list_all (\<lambda>x. x * 2 powi (- 0) \<in> \<int>) (amounts scenario_start)"
    by (simp_all add: amounts_def scenario_start_def scenario_end_def)
  have b: "(\<Sum>x\<leftarrow>amounts scenario_end. \<bar>x\<bar>) + (\<Sum>x\<leftarrow>amounts scenario_start. \<bar>x\<bar>) < 2 powi (53 + 0)"
    by (simp add: amounts_def scenario_start_def scenario_end_def)
  have d: "sum_list (amounts scenario_end) - sum_list (amounts scenario_start) = 55"
    by (simp add: amounts_def scenario_start_def scenario_end_def)
  have "Joules scenario_start scenario_end (- 5)
        = Returned (Finite (sum_list (amounts scenario_end) - sum_list (amounts scenario_start)))"
    using Joules_aggregate_mode [OF neg, of scenario_start scenario_end 0] g w b by blast
  then show ?thesis
    using neg g w b by (simp only: d simp_thms)
qed

text \<open>
  Claim C2 as stated gives the result as the sum over the channels of the end snapshot
  minus the sum over the channels of the start snapshot. With readings
  \<open>10 ^ 16\<close>, 1, 1 at the start and \<open>10 ^ 16\<close>, 3, 3 at the end, \<open>Joules\<close> with
  selector \<open>- 5\<close> returns 6, while the difference of the two sums in doubles is 8
  (the exact difference is 4).
\<close>

theorem Joules_aggregate_mode_counterexample:
  "Joules large_start large_end (- 5) = Returned (Finite 6)
   \<and> sum_difference large_start large_end = Finite 8"
  by (simp add: Joules_negative sum_difference_def readings_def amounts_def
      large_start_def large_end_def add_all_Cons add_all_Nil sub_all_Cons sub_all_Nil
      round_1e16 round_1e16_plus_1 round_1e16_plus_3 round_1e16_plus_7 round_double_whole)

text \<open>
  Claim C3. The specification asks that a selector at or beyond the channel count be
  rejected with an error. On the scenario's two-channel snapshots the selectors \<open>2\<close> and
  \<open>3\<close> are not rejected: for \<open>2\<close> the strict comparison builds no error at all, for
  \<open>3\<close> the error is built and dropped, and both go on to index past the last channel.
\<close>

theorem Joules_top_index_not_rejected:
  "NrMeasurements scenario_end = 2 \<and> NrMeasurements scenario_start = 2
   \<and> pairID_check scenario_start 2 = None
   \<and> Joules scenario_start scenario_end 2 = OutOfRange
   \<and> Joules scenario_start scenario_end 3 = OutOfRange"
  by (simp add: Joules_def Let_def joules_def pairID_check_def NrMeasurements_def
      scenario_start_def scenario_end_def)

text \<open>
  Claim C5. The check of lines 27 to 29 compares with \<open>>\<close>, so a selector equal to the
  first snapshot's count builds no error; for a greater selector it builds the
  \<open>std::runtime_error\<close> and drops it. In both cases \<open>Joules\<close> throws nothing and goes on
  to the indexing of line 32, which reads the first snapshot out of range.
\<close>

theorem Joules_validation_swallowed:
  "(pairID = NrMeasurements firstState \<longrightarrow>
      pairID_check firstState pairID = None
      \<and> Joules firstState secondState pairID = OutOfRange)
   \<and> (pairID > NrMeasurements firstState \<longrightarrow>
      pairID_check firstState pairID
      = Some (RuntimeError (''Invalid pairID'' @ to_string pairID
                @ '', maximum value is '' @ to_string (NrMeasurements firstState)))
      \<and> (\<forall>e. Joules firstState secondState pairID \<noteq> Thrown e)
      \<and> Joules firstState secondState pairID = OutOfRange)"
  by (simp add: pairID_check_def Joules_out_of_range)

theorem Joules_validation_swallowed_witness:
  "(2 = NrMeasurements scenario_start
    \<and> pairID_check scenario_start 2 = None
    \<and> Joules scenario_start scenario_end 2 = OutOfRange)
   \<and> (3 > NrMeasurements scenario_start
    \<and> pairID_check scenario_start 3
      = Some (RuntimeError ''Invalid pairID3, maximum value is 2'')
    \<and> Joules scenario_start scenario_end 3 = OutOfRange)"
proof -
  have n: "NrMeasurements scenario_start = 2"
    by (simp add: NrMeasurements_def scenario_start_def)
  show ?thesis
    using Joules_validation_swallowed [of 2 scenario_start scenario_end]
      Joules_validation_swallowed [of 3 scenario_start scenario_end]
    by (simp add: n to_string_2 to_string_3)
qed







text \<open>
  Claim C10, as the code has it. In aggregate mode each loop runs over the channel count
  of its own snapshot and the counts are never compared: snapshots with different numbers
  of channels still give a returned value, the running total of the additions and the
  subtractions. It is not NaN when all readings are finite, and it is the exact
  difference of the two sums when no step rounds (readings that are multiples of
  \<open>2 ^ g\<close> with absolute values summing to less than \<open>2 ^ (53 + g)\<close>).
\<close>

theorem Joules_aggregate_mismatched_counts:
  assumes "pairID < 0" and "NrMeasurements firstState \<noteq> NrMeasurements secondState"
  shows "Joules firstState secondState pairID
         = Returned (sub_all (add_all (Finite 0) (readings secondState)) (readings firstState))
         \<and> (list_all is_finite (readings secondState) \<and> list_all is_finite (readings firstState)
            \<longrightarrow> Joules firstState secondState pairID \<noteq> Returned NaN)
         \<and> (- 1074 \<le> g \<and> g \<le> 971
              \<and> list_all (\<lambda>x. x * 2 powi (- g) \<in> \<int>) (amounts secondState)
              \<and> list_all (\<lambda>x. x * 2 powi (- g) \<in> \<int>) (amounts firstState)
              \<and> (\<Sum>x\<leftarrow>amounts secondState. \<bar>x\<bar>) + (\<Sum>x\<leftarrow>amounts firstState. \<bar>x\<bar>)
                  < 2 powi (53 + g)
            \<longrightarrow> Joules firstState secondState pairID
                = Returned (Finite (sum_list (amounts secondState)
                                    - sum_list (amounts firstState))))"
proof (intro conjI impI)
  show total: "Joules firstState secondState pairID
        = Returned (sub_all (add_all (Finite 0) (readings secondState)) (readings firstState))"
    using assms(1) by (rule Joules_negative)
  assume "list_all is_finite (readings secondState) \<and> list_all is_finite (readings firstState)"
  then have "sub_all (add_all (Finite 0) (readings secondState)) (readings firstState) \<noteq> NaN"
    by (intro sub_all_not_NaN add_all_not_NaN) simp_all
  then show "Joules firstState secondState pairID \<noteq> Returned NaN"
    by (simp add: total)
next
  assume "- 1074 \<le> g \<and> g \<le> 971
          \<and> list_all (\<lambda>x. x * 2 powi (- g) \<in> \<int>) (amounts secondState)
          \<and> list_all (\<lambda>x. x * 2 powi (- g) \<in> \<int>) (amounts firstState)
          \<and> (\<Sum>x\<leftarrow>amounts secondState. \<bar>x\<bar>) + (\<Sum>x\<leftarrow>amounts firstState. \<bar>x\<bar>)
              < 2 powi (53 + g)"
  with assms(1) show "Joules firstState secondState pairID
        = Returned (Finite (sum_list (amounts secondState) - sum_list (amounts firstState)))"
    by (intro Joules_negative_exact [of _ g]) (simp_all add: list_all_iff)
qed

theorem Joules_aggregate_mismatched_counts_witness:
  "(- 1 :: int) < 0 \<and> NrMeasurements one_channel \<noteq> NrMeasurements scenario_end
   \<and> (- 1074 :: int) \<le> 0 \<and> (0 :: int) \<le> 971
   \<and> list_all (\<lambda>x. x * 2 powi (- 0) \<in> \<int>) (amounts scenario_end)
   \<and> list_all (\<lambda>x. x * 2 powi (- 0) \<in> \<int>) (amounts one_channel)
   \<and> (\<Sum>x\<leftarrow>amounts scenario_end. \<bar>x\<bar>) + (\<Sum>x\<leftarrow>amounts one_channel. \<bar>x\<bar>) < 2 powi (53 + 0)
   \<and> list_all is_finite (readings scenario_end) \<and> list_all is_finite (readings one_channel)
   \<and> Joules one_channel scenario_end (- 1) = Returned (Finite 195)
   \<and> Joules one_channel scenario_end (- 1) \<noteq> Returned NaN"
proof -
  have neg: "(- 1 :: int) < 0" and g: "(- 1074 :: int) \<le> 0" "(0 :: int) \<le> 971"
    by simp_all
  have n: "NrMeasurements one_channel \<noteq> NrMeasurements scenario_end"
    by (simp add: NrMeasurements_def one_channel_def scenario_end_def)
  have w: "list_all (\<lambda>x. x * 2 powi (- 0) \<in> \<int>) (amounts scenario_end)"
    "list_all (\<lambda>x. x * 2 powi (- 0) \<in> \<int>) (amounts one_channel)"
    by (simp_all add: amounts_def one_channel_def scenario_end_def)
  have b: "(\<Sum>x\<leftarrow>amounts scenario_end. \<bar>x\<bar>) + (\<Sum>x\<leftarrow>amounts one_channel. \<bar>x\<bar>) < 2 powi (53 + 0)"
    by (simp add: amounts_def one_channel_def scenario_end_def)
  have f: "list_all is_finite (readings scenario_end)" "list_all is_finite (readings one_channel)"
    by (simp_all add: readings_def amounts_def one_channel_def scenario_end_def round_double_whole)
  have d: "sum_list (amounts scenario_end) - sum_list (amounts one_channel) = 195"
    by (simp add: amounts_def one_channel_def scenario_end_def)
  note main = Joules_aggregate_mismatched_counts [OF neg n, of 0]
  have "Joules one_channel scenario_end (- 1)
        = Returned (Finite (sum_list (amounts scenario_end) - sum_list (amounts one_channel)))"
    using main g w b by blast
  moreover have "Joules one_channel scenario_end (- 1) \<noteq> Returned NaN"
    using main f by blast
  ultimately show ?thesis
    using neg n g w b f by (simp only: d simp_thms)
qed

text \<open>
  Claim C10 as stated has the two snapshots summed independently and the difference of
  the sums returned. With readings \<open>10 ^ 16\<close>, 1 at the start and \<open>10 ^ 16\<close>, 3, 3 at
  the end \<open>Joules\<close> returns 7, while the difference of the two sums in doubles is 8.
\<close>

theorem Joules_aggregate_mismatched_counts_counterexample:
  "NrMeasurements large_short \<noteq> NrMeasurements large_end
   \<and> Joules large_short large_end (- 1) = Returned (Finite 7)
   \<and> sum_difference large_short large_end = Finite 8"
  by (simp add: Joules_negative sum_difference_def NrMeasurements_def readings_def amounts_def
      large_short_def large_end_def
      add_all_Cons add_all_Nil sub_all_Cons sub_all_Nil
      round_1e16 round_1e16_plus_1 round_1e16_plus_3 round_1e16_plus_7 round_double_whole)

section \<open>Power\<close>

text \<open>
  Claim C4, as the code has it. \<open>Watt\<close> never throws and \<open>watts\<close> is \<open>Watt\<close>. Where
  \<open>Joules\<close> returns \<open>j\<close>, the result is the quotient of \<open>j\<close> by the elapsed seconds, a
  division of doubles. For finite operands it is the rounded quotient whenever the seconds
  are not zero, negative intervals included; for an interval of zero seconds it is the
  result of IEEE division by zero, returned like any other value: an infinity with the
  sign of \<open>j\<close>, or NaN when \<open>j\<close> is zero.
\<close>

theorem Watt_quotient:
  "(\<forall>e. Watt firstState secondState pairID \<noteq> Thrown e)
   \<and> watts firstState secondState pairID = Watt firstState secondState pairID
   \<and> (Joules firstState secondState pairID = Returned j \<longrightarrow>
        Watt firstState secondState pairID
        = Returned (double_div j (seconds firstState secondState)))
   \<and> (Joules firstState secondState pairID = Returned (Finite x)
        \<and> seconds firstState secondState = Finite t \<longrightarrow>
        (t \<noteq> 0 \<longrightarrow>
           Watt firstState secondState pairID = Returned (round_double (x / t)))
      \<and> (t = 0 \<longrightarrow>
           Watt firstState secondState pairID
           = Returned (if 0 < x then PosInfinity else if x < 0 then NegInfinity else NaN)))"
proof -
  have "Watt firstState secondState pairID \<noteq> Thrown e" for e
    using Joules_never_throws [of firstState secondState pairID]
    by (cases "Joules firstState secondState pairID") (simp_all add: Watt_def)
  then show ?thesis
    by (simp add: watts_def Watt_def)
qed

text \<open>
  The scenario gives 27.5 watts; in the wrong order the interval is negative and the
  result is 25 watts; a snapshot against itself gives NaN.
\<close>

theorem Watt_quotient_witness:
  "Joules scenario_start scenario_end (- 1) = Returned (Finite 55)
   \<and> seconds scenario_start scenario_end = Finite 2
   \<and> Watt scenario_start scenario_end (- 1) = Returned (Finite 27.5)
   \<and> Joules scenario_end scenario_start 0 = Returned (Finite (- 50))
   \<and> seconds scenario_end scenario_start = Finite (- 2)
   \<and> Watt scenario_end scenario_start 0 = Returned (Finite 25)
   \<and> Joules scenario_start scenario_start 0 = Returned (Finite 0)
   \<and> seconds scenario_start scenario_start = Finite 0
   \<and> Watt scenario_start scenario_start 0 = Returned NaN"
proof -
  have j1: "Joules scenario_start scenario_end (- 1) = Returned (Finite 55)"
    by (simp add: Joules_negative_exact [of _ 0] amounts_def scenario_start_def scenario_end_def)
  have j2: "Joules scenario_end scenario_start 0 = Returned (Finite (- 50))"
    by (simp add: Joules_nonnegative joules_def NrMeasurements_def round_double_whole
        scenario_start_def scenario_end_def)
  have j3: "Joules scenario_start scenario_start 0 = Returned (Finite 0)"
    by (simp add: Joules_nonnegative joules_def NrMeasurements_def round_double_whole
        scenario_start_def)
  have s1: "seconds scenario_start scenario_end = Finite 2"
    and s2: "seconds scenario_end scenario_start = Finite (- 2)"
    and s3: "seconds scenario_start scenario_start = Finite 0"
    by (simp_all add: seconds_def round_double_whole scenario_start_def scenario_end_def)
  show ?thesis
    using Watt_quotient [of scenario_start scenario_end "- 1" "Finite 55" 55 2]
      Watt_quotient [of scenario_end scenario_start 0 "Finite (- 50)" "- 50" "- 2"]
      Watt_quotient [of scenario_start scenario_start 0 "Finite 0" 0 0]
    by (simp add: j1 j2 j3 s1 s2 s3 round_27_5 round_double_whole)
qed

text \<open>
  Claim C4 as stated asks for an error when the interval is not positive. For the
  scenario's start and an end snapshot taken at the same instant the interval is zero and
  \<open>Watt\<close> returns positive infinity.
\<close>

theorem Watt_zero_interval_counterexample:
  "seconds scenario_start same_instant_end = Finite 0
   \<and> Watt scenario_start same_instant_end (- 1) = Returned PosInfinity"
  by (simp add: Watt_def Joules_negative_exact [of _ 0] seconds_def amounts_def
      round_double_whole scenario_start_def scenario_end_def same_instant_end_def)

section \<open>Creating a sensor\<close>

text \<open>
  Claim C6. For every tag other than \<open>RAPL\<close>, \<open>create\<close> throws the runtime error
  ``Unknown sensor type'' and returns no handle. For \<open>RAPL\<close> it returns the handle the
  vendor factory made (and lets the factory's exception pass). The PowerSensor3
  \<open>create\<close> has no tag; it returns a handle exactly when the vendor constructor made it.
\<close>

theorem create_unknown_sensor_type:
  "(sensor \<noteq> RAPL \<longrightarrow>
      create RAPL Rapl_Create sensor = Thrown (RuntimeError ''Unknown sensor type'')
      \<and> (\<forall>h. create RAPL Rapl_Create sensor \<noteq> Returned h))
   \<and> create RAPL (Ok handle) RAPL = Returned handle
   \<and> create RAPL (Raised m) RAPL = Thrown (VendorException m)
   \<and> (powersensor3_rs_create PowerSensor device = Returned h'
        \<longleftrightarrow> PowerSensor device = Ok h')"
proof -
  have "powersensor3_rs_create PowerSensor device = Returned h' \<longleftrightarrow> PowerSensor device = Ok h'"
    by (cases "PowerSensor device") (simp_all add: powersensor3_rs_create_def)
  then show ?thesis
    by (simp add: create_def)
qed

theorem create_unknown_sensor_type_witness:
  "(7 :: SensorType) \<noteq> 0
   \<and> create 0 (Ok ''rapl'') 7 = Thrown (RuntimeError ''Unknown sensor type'')
   \<and> create 0 (Ok ''rapl'') 0 = Returned ''rapl''
   \<and> create 0 (Raised ''no device'' :: string vendor) 0 = Thrown (VendorException ''no device'')
   \<and> powersensor3_rs_create bench_open ''/dev/null'' \<noteq> Returned unplugged"
proof -
  have ne: "(7 :: SensorType) \<noteq> 0"
    by simp
  have op: "bench_open ''/dev/null'' \<noteq> Ok unplugged"
    by (simp add: bench_open_def)
  show ?thesis
    using ne op
      create_unknown_sensor_type [of 7 0 "Ok ''rapl''" "''rapl''" "''no device''"
        bench_open "''/dev/null''" unplugged]
    by blast
qed

section \<open>Channel names\<close>

text \<open>
  Claim C7, as the code has it. Both wrappers throw ``Invalid sensor id'' exactly when the
  index is negative, and the pmt wrapper then leaves the device untouched. For an index
  that is not negative the pmt wrapper reads the device once and indexes the snapshot it
  got (a failed read passes through); the PowerSensor3 wrapper asks the sensor for the
  pair name and reads nothing.
\<close>

theorem get_sensor_name_behaviour:
  "(fst (get_sensor_name Read device sensor_id) = Thrown (RuntimeError ''Invalid sensor id'')
      \<longleftrightarrow> sensor_id < 0)
   \<and> (powersensor3_rs_get_sensor_name getPairName sensor sensor_id
        = Thrown (RuntimeError ''Invalid sensor id'') \<longleftrightarrow> sensor_id < 0)
   \<and> (sensor_id < 0 \<longrightarrow> snd (get_sensor_name Read device sensor_id) = device)
   \<and> (0 \<le> sensor_id \<longrightarrow>
        (\<forall>st device'. Read device = (Ok st, device') \<longrightarrow>
           get_sensor_name Read device sensor_id = (name st sensor_id, device'))
        \<and> (\<forall>m device'. Read device = (Raised m, device') \<longrightarrow>
           get_sensor_name Read device sensor_id = (Thrown (VendorException m), device'))
        \<and> powersensor3_rs_get_sensor_name getPairName sensor sensor_id
          = propagate (getPairName sensor sensor_id))"
proof -
  have a: "fst (get_sensor_name Read device sensor_id) = Thrown (RuntimeError ''Invalid sensor id'')
      \<longleftrightarrow> sensor_id < 0"
    by (cases "Read device"; cases "fst (Read device)")
       (auto simp: get_sensor_name_def name_def)
  have b: "powersensor3_rs_get_sensor_name getPairName sensor sensor_id
        = Thrown (RuntimeError ''Invalid sensor id'') \<longleftrightarrow> sensor_id < 0"
    by (cases "getPairName sensor sensor_id")
       (auto simp: powersensor3_rs_get_sensor_name_def)
  show ?thesis
    using a b by (simp add: get_sensor_name_def powersensor3_rs_get_sensor_name_def)
qed

theorem get_sensor_name_behaviour_witness:
  "(0::int) \<le> 1 \<and> \<not> (1::int) < 0
   \<and> replay_Read [scenario_start, scenario_end] = (Ok scenario_start, [scenario_end])
   \<and> get_sensor_name replay_Read [scenario_start, scenario_end] 1
     = (Returned ''dram'', [scenario_end])
   \<and> powersensor3_rs_get_sensor_name bench_getPairName unplugged 1
     = Thrown (VendorException ''no such pair'')
   \<and> (- 1 :: int) < 0
   \<and> get_sensor_name replay_Read [scenario_start, scenario_end] (- 1)
     = (Thrown (RuntimeError ''Invalid sensor id''), [scenario_start, scenario_end])"
  using get_sensor_name_behaviour [of replay_Read "[scenario_start, scenario_end]" 1
      bench_getPairName unplugged]
    get_sensor_name_behaviour [of replay_Read "[scenario_start, scenario_end]" "- 1"
      bench_getPairName unplugged]
  by (simp add: name_def NrMeasurements_def scenario_start_def bench_getPairName_def
      unplugged_def get_sensor_name_def)

text \<open>
  Claim C7 as stated has every handle take a fresh read. A PowerSensor3 sensor whose
  device is gone still answers the name lookup of pair \<open>0\<close>, where reading and indexing
  would fail with the read's error.
\<close>

theorem get_sensor_name_without_read_counterexample:
  "powersensor3_rs_get_sensor_name bench_getPairName unplugged 0 = Returned ''pair0''
   \<and> read_then_index bench_read unplugged 0 = Thrown (RuntimeError ''device disconnected'')"
  by (simp add: powersensor3_rs_get_sensor_name_def bench_getPairName_def unplugged_def
      read_then_index_def powersensor3_rs_read_def bench_read_def)

end
